theory Spec2Isabelle
  imports Main
begin

section \<open>Text and integers as Python has them\<close>

text \<open>
  A Python \<open>str\<close> is a \<open>string\<close>, one \<open>char\<close> per code point. Input text (colours,
  priorities, dates) is ASCII in this development; the only text beyond ASCII is the
  recurrence glyph of the rendered table, which is kept as its UTF-8 bytes. Python's
  \<open>None\<close> is \<open>None\<close> of an option type, and an exception is the \<open>Inl\<close> side of a sum.
\<close>

datatype error =
    ValueError string
  | InvalidLiteral nat string
  | TypeError string
  | BadParameter error

text \<open>
  \<open>InvalidLiteral b s\<close> is the \<open>ValueError\<close> that \<open>int(s, b)\<close> raises
  (\<open>invalid literal for int() with base b: repr(s)\<close>); \<open>BadParameter e\<close> is
  \<open>click.BadParameter(e)\<close>, which wraps the exception it was built from.
\<close>

definition digit_char :: "nat \<Rightarrow> char" where
  "digit_char n = ''0123456789'' ! n"

fun str_nat :: "nat \<Rightarrow> string" where
  "str_nat n = (if n < 10 then [digit_char n] else str_nat (n div 10) @ [digit_char (n mod 10)])"

declare str_nat.simps [simp del]

definition str_int :: "int \<Rightarrow> string" where
  "str_int i = (if i < 0 then CHR ''-'' # str_nat (nat (- i)) else str_nat (nat i))"

text \<open>
  \<open>int(s, base)\<close> on text, after CPython's \<open>PyLong_FromString\<close>: leading blanks, one
  optional sign, for bases 16, 8 and 2 an optional \<open>0x\<close>, \<open>0o\<close>, \<open>0b\<close> prefix (with
  one underscore allowed after it), then digits with single underscores between them,
  then trailing blanks only. Any other shape raises \<open>ValueError\<close>. Blanks and digits
  beyond ASCII, and the limit recent versions put on the number of digits, are left
  out.
\<close>

definition py_isspace :: "char \<Rightarrow> bool" where
  "py_isspace c = (c \<in> set [CHR 0x09, CHR 0x0A, CHR 0x0B, CHR 0x0C, CHR 0x0D, CHR 0x20])"

definition py_digit_value :: "char \<Rightarrow> nat" where
  "py_digit_value c =
     (let n = (of_char c :: nat) in
      if 48 \<le> n \<and> n \<le> 57 then n - 48
      else if 97 \<le> n \<and> n \<le> 122 then n - 87
      else if 65 \<le> n \<and> n \<le> 90 then n - 55
      else 37)"

fun scan_digits :: "nat \<Rightarrow> char \<Rightarrow> nat \<Rightarrow> nat \<Rightarrow> string \<Rightarrow> (nat \<times> nat \<times> string) option" where
  "scan_digits base prev acc digits [] =
     (if prev = CHR ''_'' then None else Some (acc, digits, []))"
| "scan_digits base prev acc digits (c # cs) =
     (if c = CHR ''_'' then
        (if prev = CHR ''_'' then None else scan_digits base c acc digits cs)
      else if py_digit_value c < base then
        scan_digits base c (acc * base + py_digit_value c) (Suc digits) cs
      else if prev = CHR ''_'' then None
      else Some (acc, digits, c # cs))"

definition skip_sign :: "string \<Rightarrow> bool \<times> string" where
  "skip_sign s =
     (case s of
        [] \<Rightarrow> (False, s)
      | c # cs \<Rightarrow>
          if c = CHR ''+'' then (False, cs)
          else if c = CHR ''-'' then (True, cs)
          else (False, s))"

definition skip_prefix :: "nat \<Rightarrow> string \<Rightarrow> string" where
  "skip_prefix base s =
     (case s of
        z # x # rest \<Rightarrow>
          if z = CHR ''0'' \<and>
             ((base = 16 \<and> (x = CHR ''x'' \<or> x = CHR ''X'')) \<or>
              (base = 8 \<and> (x = CHR ''o'' \<or> x = CHR ''O'')) \<or>
              (base = 2 \<and> (x = CHR ''b'' \<or> x = CHR ''B'')))
          then (case rest of u # r \<Rightarrow> if u = CHR ''_'' then r else rest | [] \<Rightarrow> rest)
          else s
      | _ \<Rightarrow> s)"

definition py_int :: "nat \<Rightarrow> string \<Rightarrow> error + int" where
  "py_int base s =
     (let (neg, s2) = skip_sign (dropWhile py_isspace s);
          s3 = skip_prefix base s2
      in if (case s3 of c # _ \<Rightarrow> c = CHR ''_'' | [] \<Rightarrow> False) then Inl (InvalidLiteral base s)
         else
           (case scan_digits base (CHR 0x00) 0 0 s3 of
              None \<Rightarrow> Inl (InvalidLiteral base s)
            | Some (v, digits, rest) \<Rightarrow>
                if digits = 0 \<or> dropWhile py_isspace rest \<noteq> [] then Inl (InvalidLiteral base s)
                else Inr (if neg then - int v else int v)))"

section \<open>Color Mapper\<close>

text \<open>
  \<open>rgb_to_ansi(colour)\<close>: the two early returns give \<open>None\<close>; past them each channel
  goes through \<open>int(_, 16)\<close>, whose \<open>ValueError\<close> is not caught.
\<close>

definition esc :: char where
  "esc = CHR 0x1B"

definition rgb_to_ansi :: "string option \<Rightarrow> error + string option" where
  "rgb_to_ansi colour =
     (case colour of
        None \<Rightarrow> Inr None
      | Some col \<Rightarrow>
          if col = [] \<or> hd col \<noteq> CHR ''#'' then Inr None
          else
            let r = take 2 (drop 1 col); g = take 2 (drop 3 col); b = take 2 (drop 5 col)
            in if \<not> (length r = length g \<and> length g = length b \<and> length b = 2) then Inr None
               else
                 (case py_int 16 r of
                    Inl e \<Rightarrow> Inl e
                  | Inr ri \<Rightarrow>
                      (case py_int 16 g of
                         Inl e \<Rightarrow> Inl e
                       | Inr gi \<Rightarrow>
                           (case py_int 16 b of
                              Inl e \<Rightarrow> Inl e
                            | Inr bi \<Rightarrow>
                                Inr (Some (esc # ''[38;2;'' @ str_int ri @ '';'' @ str_int gi
                                           @ '';'' @ str_int bi @ ''m''))))))"

section \<open>Dates, times and timezones\<close>

text \<open>
  The values of Python's \<open>datetime\<close> module, by what they denote. A \<open>date\<close> is a count
  of days from 1970-01-01, a time of day a count of microseconds from midnight, and a
  \<open>datetime\<close> the count of microseconds its wall clock shows from 1970-01-01T00:00:00
  together with an optional \<open>tzinfo\<close>; the civil fields (year to microsecond) are a
  one-to-one view of these counts, and no function below reads a single field. The
  year range of the module (1 to 9999) is not modelled. A \<open>tzinfo\<close> gives the UTC
  offset, in microseconds, of a wall clock reading; two values with the same key stand
  for the same Python object.
\<close>

datatype tzinfo = TzInfo (tz_key: string) (tz_utcoffset: "int \<Rightarrow> int")

type_synonym date = int

record datetime =
  wall :: int
  tzinfo :: "tzinfo option"

datatype pydate = PyDate date | PyDatetime datetime

record struct_time =
  tm_year :: int
  tm_mon :: int
  tm_mday :: int
  tm_hour :: int
  tm_min :: int
  tm_sec :: int
  tm_wday :: int
  tm_yday :: int
  tm_isdst :: int

definition day_us :: int where
  "day_us = 86400000000"

definition pytz_UTC :: tzinfo where
  "pytz_UTC = TzInfo ''UTC'' (\<lambda>_. 0)"

definition datetime_date :: "datetime \<Rightarrow> date" where
  "datetime_date d = wall d div day_us"

definition datetime_time :: "datetime \<Rightarrow> int" where
  "datetime_time d = wall d mod day_us"

definition datetime_combine :: "date \<Rightarrow> int \<Rightarrow> datetime" where
  "datetime_combine d t = \<lparr>wall = d * day_us + t, tzinfo = None\<rparr>"

definition replace_tzinfo :: "datetime \<Rightarrow> tzinfo \<Rightarrow> datetime" where
  "replace_tzinfo d z = d\<lparr>tzinfo := Some z\<rparr>"

definition fromordinal :: "date \<Rightarrow> datetime" where
  "fromordinal d = \<lparr>wall = d * day_us, tzinfo = None\<rparr>"

definition fromtimestamp_utc :: "int \<Rightarrow> datetime" where
  "fromtimestamp_utc v = \<lparr>wall = v * 1000000, tzinfo = Some pytz_UTC\<rparr>"

text \<open>
  Comparison of two \<open>datetime\<close> values: wall clocks when both are naive or share their
  \<open>tzinfo\<close>, UTC instants when both are aware, \<open>TypeError\<close> when one is naive and the
  other aware. A \<open>date\<close> never compares with a \<open>datetime\<close>.
\<close>

definition naive_aware_msg :: string where
  "naive_aware_msg = ''can'' @ [CHR 0x27] @ ''t compare offset-naive and offset-aware datetimes''"

definition date_datetime_msg :: string where
  "date_datetime_msg = ''can'' @ [CHR 0x27] @ ''t compare datetime.datetime to datetime.date''"

definition datetime_le :: "datetime \<Rightarrow> datetime \<Rightarrow> error + bool" where
  "datetime_le a b =
     (case tzinfo a of
        None \<Rightarrow>
          (case tzinfo b of
             None \<Rightarrow> Inr (wall a \<le> wall b)
           | Some zb \<Rightarrow> Inl (TypeError naive_aware_msg))
      | Some za \<Rightarrow>
          (case tzinfo b of
             None \<Rightarrow> Inl (TypeError naive_aware_msg)
           | Some zb \<Rightarrow>
               if tz_key za = tz_key zb then Inr (wall a \<le> wall b)
               else Inr (wall a - tz_utcoffset za (wall a) \<le> wall b - tz_utcoffset zb (wall b))))"

fun pydate_le :: "pydate \<Rightarrow> pydate \<Rightarrow> error + bool" where
  "pydate_le (PyDate a) (PyDate b) = Inr (a \<le> b)"
| "pydate_le (PyDatetime a) (PyDatetime b) = datetime_le a b"
| "pydate_le (PyDate a) (PyDatetime b) = Inl (TypeError date_datetime_msg)"
| "pydate_le (PyDatetime a) (PyDate b) = Inl (TypeError date_datetime_msg)"

section \<open>What the module takes from outside\<close>

text \<open>
  The standard library, parsedatetime, tabulate and the clock are parameters:
  \<open>strptime\<close> gives \<open>None\<close> where Python raises \<open>ValueError\<close>; \<open>calendar_parse\<close> is
  \<open>Calendar.parse\<close>, returning the broken-down time and the context's
  \<open>hasDateOrTime\<close>; \<open>mktime\<close> and \<open>fromtimestamp\<close> (local time, naive) work on whole
  seconds; \<open>local_utcoffset\<close> is the system zone's offset, in microseconds, for a naive
  wall clock reading; \<open>clock_now\<close> is what \<open>datetime.datetime.now()\<close> returned when the
  formatter was built.
\<close>

datatype cell = CellInt int | CellStr string | CellNone

record lib =
  strptime :: "string \<Rightarrow> string \<Rightarrow> datetime option"
  strftime :: "datetime \<Rightarrow> string \<Rightarrow> string"
  date_strftime :: "date \<Rightarrow> string \<Rightarrow> string"
  calendar_parse :: "string \<Rightarrow> struct_time \<times> bool"
  mktime :: "struct_time \<Rightarrow> int"
  fromtimestamp :: "int \<Rightarrow> datetime"
  local_utcoffset :: "int \<Rightarrow> int"
  tzlocal :: tzinfo
  clock_now :: datetime
  tabulate :: "cell list list \<Rightarrow> string"

text \<open>
  \<open>click.style(text, fg=...)\<close>: the colour's escape when one is given, the text, and
  the reset sequence (its \<open>reset\<close> argument is left at \<open>True\<close> throughout).
\<close>

datatype ansi_colour = Black | Red | Green | Yellow | Blue | Magenta | Cyan | White

fun ansi_index :: "ansi_colour \<Rightarrow> nat" where
  "ansi_index Black = 0"
| "ansi_index Red = 1"
| "ansi_index Green = 2"
| "ansi_index Yellow = 3"
| "ansi_index Blue = 4"
| "ansi_index Magenta = 5"
| "ansi_index Cyan = 6"
| "ansi_index White = 7"

definition ansi_reset_all :: string where
  "ansi_reset_all = esc # ''[0m''"

definition click_style :: "string \<Rightarrow> ansi_colour option \<Rightarrow> string" where
  "click_style text fg =
     (case fg of None \<Rightarrow> [] | Some c \<Rightarrow> esc # ''['' @ str_nat (ansi_index c + 30) @ ''m'')
     @ text @ ansi_reset_all"

section \<open>The default formatter\<close>

record formatter =
  date_format :: string
  time_format :: string
  dt_separator :: string
  datetime_format :: string
  tz :: tzinfo
  now :: datetime

fun py_join :: "string \<Rightarrow> string list \<Rightarrow> string" where
  "py_join sep [] = []"
| "py_join sep [x] = x"
| "py_join sep (x # y # ys) = x @ sep @ py_join sep (y # ys)"

definition DefaultFormatter_init ::
  "lib \<Rightarrow> string \<Rightarrow> string \<Rightarrow> string \<Rightarrow> tzinfo option \<Rightarrow> formatter" where
  "DefaultFormatter_init env date_fmt time_fmt sep tz_override =
     (let z = (case tz_override of Some t \<Rightarrow> t | None \<Rightarrow> tzlocal env)
      in \<lparr>date_format = date_fmt,
          time_format = time_fmt,
          dt_separator = sep,
          datetime_format = py_join sep (filter (\<lambda>s. s \<noteq> []) [date_fmt, time_fmt]),
          tz = z,
          now = replace_tzinfo (clock_now env) z\<rparr>)"

definition format_datetime :: "lib \<Rightarrow> formatter \<Rightarrow> pydate option \<Rightarrow> string" where
  "format_datetime env f dt =
     (case dt of
        None \<Rightarrow> []
      | Some (PyDatetime d) \<Rightarrow> strftime env d (datetime_format f)
      | Some (PyDate d) \<Rightarrow> date_strftime env d (date_format f))"

subsection \<open>Priorities\<close>

definition priority_msg :: string where
  "priority_msg = ''Priority has to be one of low, medium, high or none''"

definition parse_priority :: "string option \<Rightarrow> error + int option" where
  "parse_priority priority =
     (case priority of
        None \<Rightarrow> Inr None
      | Some p \<Rightarrow>
          if p = [] then Inr None
          else if p = ''low'' then Inr (Some 9)
          else if p = ''medium'' then Inr (Some 5)
          else if p = ''high'' then Inr (Some 4)
          else if p = ''none'' then Inr (Some 0)
          else Inl (ValueError priority_msg))"

definition format_priority :: "int option \<Rightarrow> string option" where
  "format_priority priority =
     (case priority of
        None \<Rightarrow> Some ''none''
      | Some p \<Rightarrow>
          if p = 0 then Some ''none''
          else if 1 \<le> p \<and> p \<le> 4 then Some ''high''
          else if p = 5 then Some ''medium''
          else if 6 \<le> p \<and> p \<le> 9 then Some ''low''
          else None)"

definition format_priority_compact :: "int option \<Rightarrow> string option" where
  "format_priority_compact priority =
     (case priority of
        None \<Rightarrow> Some []
      | Some p \<Rightarrow>
          if p = 0 then Some []
          else if 1 \<le> p \<and> p \<le> 4 then Some ''!!!''
          else if p = 5 then Some ''!!''
          else if 6 \<le> p \<and> p \<le> 9 then Some ''!''
          else None)"

subsection \<open>Parsing dates and times\<close>

text \<open>
  \<open>_parse_datetime_naive\<close> is a cascade of three \<open>try\<close> blocks and a call of the
  fuzzy calendar. Each call into the libraries is an effect, so the embedding returns,
  beside the result, the list of interpretations it has attempted, in order.
\<close>

datatype attempt = TryDatetimeFormat | TryDateFormat | TryTimeFormat | TryFuzzy

definition not_recognized :: "string \<Rightarrow> error" where
  "not_recognized dt = ValueError (''Time description not recognized: '' @ dt)"

definition parse_datetime_naive_steps ::
  "lib \<Rightarrow> formatter \<Rightarrow> string \<Rightarrow> attempt list \<times> (error + pydate)" where
  "parse_datetime_naive_steps env f dt =
     (case strptime env dt (datetime_format f) of
        Some x \<Rightarrow> ([TryDatetimeFormat], Inr (PyDatetime x))
      | None \<Rightarrow>
          (case strptime env dt (date_format f) of
             Some x \<Rightarrow> ([TryDatetimeFormat, TryDateFormat], Inr (PyDate (datetime_date x)))
           | None \<Rightarrow>
               (case strptime env dt (time_format f) of
                  Some x \<Rightarrow>
                    ([TryDatetimeFormat, TryDateFormat, TryTimeFormat],
                     Inr (PyDatetime (datetime_combine (datetime_date (now f)) (datetime_time x))))
                | None \<Rightarrow>
                    (let (rv, has_date_or_time) = calendar_parse env dt
                     in ([TryDatetimeFormat, TryDateFormat, TryTimeFormat, TryFuzzy],
                         if \<not> has_date_or_time then Inl (not_recognized dt)
                         else Inr (PyDatetime (fromtimestamp env (mktime env rv))))))))"

text \<open>
  \<open>parse_datetime\<close>: nothing is attempted on absent or empty text; otherwise the naive
  result gets the formatter's timezone when it is a \<open>datetime\<close> and is returned as it
  is when it is a \<open>date\<close>.
\<close>

definition with_tz :: "formatter \<Rightarrow> pydate \<Rightarrow> pydate" where
  "with_tz f rv =
     (case rv of
        PyDatetime d \<Rightarrow> PyDatetime (replace_tzinfo d (tz f))
      | PyDate d \<Rightarrow> PyDate d)"

definition parse_datetime_steps ::
  "lib \<Rightarrow> formatter \<Rightarrow> string option \<Rightarrow> attempt list \<times> (error + pydate option)" where
  "parse_datetime_steps env f dt =
     (case dt of
        None \<Rightarrow> ([], Inr None)
      | Some s \<Rightarrow>
          if s = [] then ([], Inr None)
          else
            (let (tried, res) = parse_datetime_naive_steps env f s
             in (tried,
                 case res of
                   Inl e \<Rightarrow> Inl e
                 | Inr rv \<Rightarrow> Inr (Some (with_tz f rv)))))"

definition parse_datetime_naive :: "lib \<Rightarrow> formatter \<Rightarrow> string \<Rightarrow> error + pydate" where
  "parse_datetime_naive env f dt = snd (parse_datetime_naive_steps env f dt)"

definition parse_datetime :: "lib \<Rightarrow> formatter \<Rightarrow> string option \<Rightarrow> error + pydate option" where
  "parse_datetime env f dt = snd (parse_datetime_steps env f dt)"

subsection \<open>Rendering records\<close>

record database =
  name :: string
  colour :: "string option"

record todo =
  todo_id :: int
  summary :: string
  description :: "string option"
  location :: "string option"
  due :: "pydate option"
  percent_complete :: "int option"
  priority :: "int option"
  is_completed :: bool
  is_recurring :: bool
  todo_list :: database

definition format_database :: "database \<Rightarrow> error + string" where
  "format_database db =
     (case rgb_to_ansi (colour db) of
        Inl e \<Rightarrow> Inl e
      | Inr c \<Rightarrow>
          Inr ((case c of None \<Rightarrow> [] | Some a \<Rightarrow> a) @ ''@'' @ click_style (name db) None))"

text \<open>
  Lines 68 to 73 of \<open>compact_multiple\<close>: the due text, in red when the record is
  overdue. Python evaluates \<open>todo.due and todo.due <= now and not todo.is_completed\<close>
  from the left, so the comparison (and its \<open>TypeError\<close>) comes before the completion
  flag is read, and is skipped when there is no due value.
\<close>

definition coerce_now :: "formatter \<Rightarrow> pydate option \<Rightarrow> pydate" where
  "coerce_now f d =
     (case d of
        Some (PyDatetime _) \<Rightarrow> PyDatetime (now f)
      | _ \<Rightarrow> PyDate (datetime_date (now f)))"

definition due_text :: "lib \<Rightarrow> formatter \<Rightarrow> todo \<Rightarrow> error + string" where
  "due_text env f t =
     (let text = format_datetime env f (due t);
          now' = coerce_now f (due t)
      in case due t of
           None \<Rightarrow> Inr text
         | Some d \<Rightarrow>
             (case pydate_le d now' of
                Inl e \<Rightarrow> Inl e
              | Inr le \<Rightarrow>
                  Inr (if le \<and> \<not> is_completed t then click_style text (Some Red) else text)))"

definition recurring_glyph :: string where
  "recurring_glyph = [CHR 0xE2, CHR 0x9F, CHR 0xB3]"

definition percent_text :: "int option \<Rightarrow> string" where
  "percent_text p =
     (case p of
        None \<Rightarrow> []
      | Some n \<Rightarrow> if n = 0 then [] else '' ('' @ str_int n @ ''%)'')"

definition summary_text :: "bool \<Rightarrow> todo \<Rightarrow> error + string" where
  "summary_text hide_list t =
     (if hide_list then Inr (summary t @ '' '' @ percent_text (percent_complete t))
      else
        (case format_database (todo_list t) of
           Inl e \<Rightarrow> Inl e
         | Inr db \<Rightarrow> Inr (summary t @ '' '' @ db @ percent_text (percent_complete t))))"

definition compact_row :: "lib \<Rightarrow> formatter \<Rightarrow> bool \<Rightarrow> todo \<Rightarrow> error + cell list" where
  "compact_row env f hide_list t =
     (let completed = (if is_completed t then ''X'' else '' '');
          prio = format_priority_compact (priority t)
      in case due_text env f t of
           Inl e \<Rightarrow> Inl e
         | Inr due' \<Rightarrow>
             (let recurring = (if is_recurring t then recurring_glyph else [])
              in case summary_text hide_list t of
                   Inl e \<Rightarrow> Inl e
                 | Inr summ \<Rightarrow>
                     Inr [CellInt (todo_id t),
                          CellStr (''['' @ completed @ '']''),
                          (case prio of None \<Rightarrow> CellNone | Some g \<Rightarrow> CellStr g),
                          CellStr (due' @ '' '' @ recurring),
                          CellStr summ]))"

fun compact_rows :: "lib \<Rightarrow> formatter \<Rightarrow> bool \<Rightarrow> todo list \<Rightarrow> error + cell list list" where
  "compact_rows env f hide_list [] = Inr []"
| "compact_rows env f hide_list (t # ts) =
     (case compact_row env f hide_list t of
        Inl e \<Rightarrow> Inl e
      | Inr row \<Rightarrow>
          (case compact_rows env f hide_list ts of
             Inl e \<Rightarrow> Inl e
           | Inr rows \<Rightarrow> Inr (row # rows)))"

definition compact_multiple :: "lib \<Rightarrow> formatter \<Rightarrow> todo list \<Rightarrow> bool \<Rightarrow> error + string" where
  "compact_multiple env f todos hide_list =
     (case compact_rows env f hide_list todos of
        Inl e \<Rightarrow> Inl e
      | Inr table \<Rightarrow> Inr (tabulate env table))"

definition compact :: "lib \<Rightarrow> formatter \<Rightarrow> todo \<Rightarrow> error + string" where
  "compact env f t = compact_multiple env f [t] False"

section \<open>The structured (porcelain) formatter\<close>

text \<open>
  \<open>datetime.timestamp()\<close> is the UTC instant in seconds: for an aware value the wall
  clock less its offset, for a naive one the wall clock read in the system zone. It is
  a float; \<open>int\<close> drops its fraction towards zero. The embedding keeps the instant in
  exact microseconds, which is what the float holds whenever the value has no
  microseconds of its own; for a value with microseconds the float is the nearest
  double, which far from the epoch can be the next whole second, and there the code's
  integer is one more than the embedding's. \<open>fromtimestamp\<close> raises outside the years
  1 to 9999; \<open>parse_datetime\<close> below has no error value for that.
\<close>

definition timestamp_us :: "lib \<Rightarrow> datetime \<Rightarrow> int" where
  "timestamp_us env d =
     (case tzinfo d of
        None \<Rightarrow> wall d - local_utcoffset env (wall d)
      | Some z \<Rightarrow> wall d - tz_utcoffset z (wall d))"

definition py_trunc_div :: "int \<Rightarrow> int \<Rightarrow> int" where
  "py_trunc_div a b = (if a < 0 then - ((- a) div b) else a div b)"

definition Porcelain_format_datetime :: "lib \<Rightarrow> pydate option \<Rightarrow> int option" where
  "Porcelain_format_datetime env d =
     (case d of
        None \<Rightarrow> None
      | Some (PyDate x) \<Rightarrow> Some (py_trunc_div (timestamp_us env (fromordinal x)) 1000000)
      | Some (PyDatetime x) \<Rightarrow> Some (py_trunc_div (timestamp_us env x) 1000000))"

definition Porcelain_parse_datetime :: "int option \<Rightarrow> pydate option" where
  "Porcelain_parse_datetime v =
     (case v of
        None \<Rightarrow> None
      | Some n \<Rightarrow> if n = 0 then None else Some (PyDatetime (fromtimestamp_utc n)))"

definition range_msg :: string where
  "range_msg = ''Priority has to be in the range 0-9''"

definition Porcelain_parse_priority :: "string option \<Rightarrow> error + int option" where
  "Porcelain_parse_priority p =
     (case p of
        None \<Rightarrow> Inr None
      | Some s \<Rightarrow>
          (case py_int 10 s of
             Inl e \<Rightarrow> Inl (BadParameter e)
           | Inr n \<Rightarrow>
               if 0 \<le> n \<and> n < 10 then Inr (Some n)
               else Inl (BadParameter (ValueError range_msg))))"

section \<open>The specification's notions\<close>

text \<open>
  The four interpretations of a text, in the order the specification lists them, each
  with its naive result when it succeeds; and the first success of such a list together
  with the interpretations tried on the way to it.
\<close>

definition interpretations ::
  "lib \<Rightarrow> formatter \<Rightarrow> string \<Rightarrow> (attempt \<times> pydate option) list" where
  "interpretations env f s =
     [(TryDatetimeFormat, map_option PyDatetime (strptime env s (datetime_format f))),
      (TryDateFormat,
       map_option (\<lambda>x. PyDate (datetime_date x)) (strptime env s (date_format f))),
      (TryTimeFormat,
       map_option (\<lambda>x. PyDatetime (datetime_combine (datetime_date (now f)) (datetime_time x)))
         (strptime env s (time_format f))),
      (TryFuzzy,
       if snd (calendar_parse env s)
       then Some (PyDatetime (fromtimestamp env (mktime env (fst (calendar_parse env s)))))
       else None)]"

fun first_success :: "('a \<times> 'b option) list \<Rightarrow> 'a list \<times> 'b option" where
  "first_success [] = ([], None)"
| "first_success ((a, None) # rest) = (a # fst (first_success rest), snd (first_success rest))"
| "first_success ((a, Some v) # rest) = ([a], Some v)"

definition strict_formats_fail :: "lib \<Rightarrow> formatter \<Rightarrow> string \<Rightarrow> bool" where
  "strict_formats_fail env f s =
     (strptime env s (datetime_format f) = None \<and>
      strptime env s (date_format f) = None \<and>
      strptime env s (time_format f) = None)"

definition nothing_recognized :: "lib \<Rightarrow> formatter \<Rightarrow> string \<Rightarrow> bool" where
  "nothing_recognized env f s = (strict_formats_fail env f s \<and> \<not> snd (calendar_parse env s))"

definition pydate_tzinfo :: "pydate \<Rightarrow> tzinfo option" where
  "pydate_tzinfo v = (case v of PyDate _ \<Rightarrow> None | PyDatetime d \<Rightarrow> tzinfo d)"

text \<open>
  A record is overdue when its due value is present, is no later than the captured
  "now" (as a date when the due value is a date), and the record is not completed. A
  due value fits the data model when it is a date or an aware date-and-time.
\<close>

definition overdue :: "formatter \<Rightarrow> todo \<Rightarrow> bool" where
  "overdue f t =
     (case due t of
        None \<Rightarrow> False
      | Some (PyDate d) \<Rightarrow> d \<le> datetime_date (now f) \<and> \<not> is_completed t
      | Some (PyDatetime d) \<Rightarrow> datetime_le d (now f) = Inr True \<and> \<not> is_completed t)"

definition due_in_model :: "todo \<Rightarrow> bool" where
  "due_in_model t =
     (case due t of
        Some (PyDatetime d) \<Rightarrow> tzinfo d \<noteq> None
      | _ \<Rightarrow> True)"

definition is_value_error :: "error \<Rightarrow> bool" where
  "is_value_error e =
     (case e of ValueError _ \<Rightarrow> True | InvalidLiteral _ _ \<Rightarrow> True | _ \<Rightarrow> False)"

section \<open>A sample environment\<close>

text \<open>
  Stand-ins for the libraries, used to run the functions on concrete inputs: the
  formats are the defaults, \<open>strptime\<close> knows one date (2024-03-01, day 19783) and one
  time of day (10:30), the calendar knows the word "tomorrow", and the clock stands at
  2024-03-01T09:00 in a zone one hour east of UTC.
\<close>

definition sample_tz :: tzinfo where
  "sample_tz = TzInfo ''CET'' (\<lambda>_. 3600000000)"

definition sample_strptime :: "string \<Rightarrow> string \<Rightarrow> datetime option" where
  "sample_strptime s fmt =
     (if fmt = ''%Y-%m-%d %H:%M'' \<and> s = ''2024-03-01 10:30''
      then Some \<lparr>wall = 19783 * day_us + 37800000000, tzinfo = None\<rparr>
      else if fmt = ''%Y-%m-%d'' \<and> s = ''2024-03-01''
      then Some \<lparr>wall = 19783 * day_us, tzinfo = None\<rparr>
      else if fmt = ''%H:%M'' \<and> s = ''10:30''
      then Some \<lparr>wall = - 25567 * day_us + 37800000000, tzinfo = None\<rparr>
      else None)"

definition sample_struct :: "int \<Rightarrow> int \<Rightarrow> int \<Rightarrow> struct_time" where
  "sample_struct mday wday yday =
     \<lparr>tm_year = 2024, tm_mon = 3, tm_mday = mday, tm_hour = 9, tm_min = 0, tm_sec = 0,
      tm_wday = wday, tm_yday = yday, tm_isdst = - 1\<rparr>"

definition sample_calendar_parse :: "string \<Rightarrow> struct_time \<times> bool" where
  "sample_calendar_parse s =
     (if s = ''tomorrow'' then (sample_struct 2 5 62, True) else (sample_struct 1 4 61, False))"

definition sample_mktime :: "struct_time \<Rightarrow> int" where
  "sample_mktime st =
     1709251200 + (tm_mday st - 1) * 86400 + tm_hour st * 3600 + tm_min st * 60 + tm_sec st
       - 3600"

definition sample_strftime :: "datetime \<Rightarrow> string \<Rightarrow> string" where
  "sample_strftime d fmt =
     fmt @ '':'' @ str_int (wall d div day_us) @ ''T'' @ str_int (wall d mod day_us div 1000000)"

definition sample_lib :: lib where
  "sample_lib =
     \<lparr>strptime = sample_strptime,
      strftime = sample_strftime,
      date_strftime = (\<lambda>d fmt. fmt @ '':'' @ str_int d),
      calendar_parse = sample_calendar_parse,
      mktime = sample_mktime,
      fromtimestamp = (\<lambda>v. \<lparr>wall = v * 1000000 + 3600000000, tzinfo = None\<rparr>),
      local_utcoffset = (\<lambda>_. 3600000000),
      tzlocal = sample_tz,
      clock_now = \<lparr>wall = 19783 * day_us + 32400000000, tzinfo = None\<rparr>,
      tabulate = (\<lambda>rows. [])\<rparr>"

definition sample_formatter :: formatter where
  "sample_formatter = DefaultFormatter_init sample_lib ''%Y-%m-%d'' ''%H:%M'' '' '' None"

definition sample_database :: database where
  "sample_database = \<lparr>name = ''work'', colour = Some ''#ff00A0''\<rparr>"

definition sample_todo :: todo where
  "sample_todo =
     \<lparr>todo_id = 1, summary = ''Buy milk'', description = None, location = None,
      due = Some (PyDatetime (now sample_formatter)), percent_complete = None,
      priority = Some 4, is_completed = False, is_recurring = False,
      todo_list = sample_database\<rparr>"

definition sample_todo_zz :: todo where
  "sample_todo_zz = sample_todo\<lparr>todo_list := \<lparr>name = ''work'', colour = Some ''#zzzzzz''\<rparr>\<rparr>"

section \<open>Properties of the Color Mapper\<close>

lemmas py_int_defs = py_int_def skip_sign_def skip_prefix_def py_isspace_def py_digit_value_def

lemma py_int_error: "py_int base s = Inl e \<Longrightarrow> e = InvalidLiteral base s"
  by (auto simp: py_int_def Let_def split: prod.splits option.splits if_splits list.splits)

lemma rgb_to_ansi_early_returns:
  "col = None \<or> col = Some [] \<or>
     (\<exists>c cs. col = Some (c # cs) \<and> (c \<noteq> CHR ''#'' \<or> length cs < 6))
   \<Longrightarrow> rgb_to_ansi col = Inr None"
  by (auto simp: rgb_to_ansi_def Let_def)

lemma rgb_to_ansi_sample: "rgb_to_ansi (Some ''#ff00A0'') = Inr (Some (esc # ''[38;2;255;0;160m''))"
  by code_simp

text \<open>
  C1. The claim: \<open>rgb_to_ansi\<close> never raises; every malformed colour gives an absent
  result. The code guards the missing \<open>#\<close> and the short string only: on \<open>#zzzzzz\<close> the
  three channels have length two, \<open>int('zz', 16)\<close> raises \<open>ValueError\<close>, and nothing
  catches it.
\<close>

theorem rgb_to_ansi_nonhex_raises:
  "rgb_to_ansi (Some ''#zzzzzz'') = Inl (InvalidLiteral 16 ''zz'')"
  by (simp add: rgb_to_ansi_def py_int_defs)

section \<open>Properties of the Priority Mapper\<close>

text \<open>
  C5. Each of the four symbolic names parses to its representative integer (none 0,
  high 4, medium 5, low 9), \<open>format_priority\<close> of that integer gives the name back, and
  any other non-empty text makes \<open>parse_priority\<close> fail with the \<open>ValueError\<close> whose
  message lists the four names.
\<close>

theorem parse_priority_names:
  "parse_priority (Some ''none'') = Inr (Some 0) \<and>
   parse_priority (Some ''high'') = Inr (Some 4) \<and>
   parse_priority (Some ''medium'') = Inr (Some 5) \<and>
   parse_priority (Some ''low'') = Inr (Some 9) \<and>
   format_priority (Some 0) = Some ''none'' \<and>
   format_priority (Some 4) = Some ''high'' \<and>
   format_priority (Some 5) = Some ''medium'' \<and>
   format_priority (Some 9) = Some ''low'' \<and>
   (s \<noteq> [] \<and> s \<notin> set [''none'', ''high'', ''medium'', ''low'']
      \<longrightarrow> parse_priority (Some s) = Inl (ValueError priority_msg))"
  by (simp add: parse_priority_def format_priority_def)

theorem parse_priority_names_witness:
  "''urgent'' \<noteq> [] \<and> ''urgent'' \<notin> set [''none'', ''high'', ''medium'', ''low''] \<and>
   parse_priority (Some ''urgent'') = Inl (ValueError priority_msg)"
  using parse_priority_names [of "''urgent''"] by simp

lemma priority_msg_lists_names:
  "priority_msg = ''Priority has to be one of '' @ ''low'' @ '', '' @ ''medium'' @ '', ''
     @ ''high'' @ '' or '' @ ''none''"
  by (simp add: priority_msg_def)

text \<open>
  C10. For an integer priority outside 0 to 9, \<open>format_priority\<close> and
  \<open>format_priority_compact\<close> fall through every branch and return nothing.
\<close>

theorem format_priority_out_of_range:
  "p < 0 \<or> 9 < p \<Longrightarrow>
   format_priority (Some p) = None \<and> format_priority_compact (Some p) = None"
  by (auto simp: format_priority_def format_priority_compact_def)

theorem format_priority_out_of_range_witness:
  "((10::int) < 0 \<or> 9 < (10::int)) \<and>
   format_priority (Some 10) = None \<and> format_priority_compact (Some 10) = None \<and>
   format_priority (Some (- 1)) = None \<and> format_priority_compact (Some (- 1)) = None"
  using format_priority_out_of_range [of 10] format_priority_out_of_range [of "- 1"]
  by simp

lemma format_priority_None_iff:
  "(format_priority (Some p) = None) = (p < 0 \<or> 9 < p)"
  "(format_priority_compact (Some p) = None) = (p < 0 \<or> 9 < p)"
  by (auto simp: format_priority_def format_priority_compact_def)

text \<open>
  C8. In structured mode \<open>parse_priority\<close> returns absent for absent input; for a text
  it returns an integer exactly when the text converts to that integer and the integer
  is in 0 to 9; in every other case it fails with \<open>BadParameter\<close> wrapping a
  \<open>ValueError\<close> (the conversion's, or the range message), never with a bare
  \<open>ValueError\<close>.
\<close>

theorem Porcelain_parse_priority_range:
  "Porcelain_parse_priority None = Inr None \<and>
   (Porcelain_parse_priority (Some s) = Inr (Some n))
     = (py_int 10 s = Inr n \<and> 0 \<le> n \<and> n \<le> 9) \<and>
   Porcelain_parse_priority (Some s) \<noteq> Inr None \<and>
   (\<exists>e. Porcelain_parse_priority (Some s) = Inl (BadParameter e) \<and> is_value_error e)
     = (\<not> (\<exists>k. py_int 10 s = Inr k \<and> 0 \<le> k \<and> k \<le> 9)) \<and>
   (\<forall>m. Porcelain_parse_priority (Some s) \<noteq> Inl (ValueError m))"
  by (auto simp: Porcelain_parse_priority_def is_value_error_def
           split: sum.splits dest: py_int_error)

lemma Porcelain_parse_priority_samples:
  "Porcelain_parse_priority (Some ''7'') = Inr (Some 7)"
  "Porcelain_parse_priority (Some ''10'') = Inl (BadParameter (ValueError range_msg))"
  "Porcelain_parse_priority (Some ''x'') = Inl (BadParameter (InvalidLiteral 10 ''x''))"
  by (simp_all add: Porcelain_parse_priority_def py_int_defs)

section \<open>Properties of the date and time parser\<close>

lemmas sample_defs = sample_lib_def sample_formatter_def DefaultFormatter_init_def
  sample_strptime_def sample_calendar_parse_def sample_mktime_def sample_struct_def
  sample_tz_def replace_tzinfo_def Let_def

lemma sample_formatter_fields:
  "now sample_formatter = \<lparr>wall = 19783 * day_us + 32400000000, tzinfo = Some sample_tz\<rparr>"
  "datetime_format sample_formatter = ''%Y-%m-%d %H:%M''"
  "date_format sample_formatter = ''%Y-%m-%d''"
  "time_format sample_formatter = ''%H:%M''"
  "tz sample_formatter = sample_tz"
  by (simp_all add: sample_defs)

lemma first_success_result:
  "snd (first_success xs) =
     (case List.find (\<lambda>p. snd p \<noteq> None) xs of None \<Rightarrow> None | Some p \<Rightarrow> snd p)"
  by (induction xs rule: first_success.induct) auto

lemma first_success_tried:
  "fst (first_success xs) =
     map fst (takeWhile (\<lambda>p. snd p = None) xs)
     @ map fst (take 1 (dropWhile (\<lambda>p. snd p = None) xs))"
  by (induction xs rule: first_success.induct) auto

lemma naive_steps_first_success:
  "parse_datetime_naive_steps env f s =
     (fst (first_success (interpretations env f s)),
      case snd (first_success (interpretations env f s)) of
        None \<Rightarrow> Inl (not_recognized s)
      | Some v \<Rightarrow> Inr v)"
  by (simp add: parse_datetime_naive_steps_def interpretations_def
           split: option.splits prod.splits)

lemma parse_datetime_naive_cases:
  "parse_datetime_naive env f s =
     (if nothing_recognized env f s then Inl (not_recognized s)
      else Inr (the (snd (first_success (interpretations env f s)))))"
  by (auto simp: parse_datetime_naive_def parse_datetime_naive_steps_def interpretations_def
        nothing_recognized_def strict_formats_fail_def
           split: option.splits prod.splits)

lemma parse_datetime_nonempty:
  "s \<noteq> [] \<Longrightarrow>
   parse_datetime env f (Some s) =
     (case parse_datetime_naive env f s of
        Inl e \<Rightarrow> Inl e
      | Inr rv \<Rightarrow> Inr (Some (with_tz f rv)))"
  by (simp add: parse_datetime_def parse_datetime_steps_def parse_datetime_naive_def
           split: prod.splits)

lemma parse_datetime_absent:
  "parse_datetime_steps env f None = ([], Inr None)"
  "parse_datetime_steps env f (Some []) = ([], Inr None)"
  by (simp_all add: parse_datetime_steps_def)

text \<open>
  C2. For every non-empty text, \<open>parse_datetime\<close> tries the combined pattern, then the
  date pattern, then the time pattern (joined with the date of the captured "now"),
  then the fuzzy parser; the interpretations it attempts are exactly those up to and
  including the first that succeeds, and its result is that first success (with the
  formatter's timezone put on a date-and-time), or the error when none succeeds.
\<close>

theorem parse_datetime_first_success:
  "s \<noteq> [] \<Longrightarrow>
   parse_datetime_steps env f (Some s) =
     (fst (first_success (interpretations env f s)),
      case snd (first_success (interpretations env f s)) of
        None \<Rightarrow> Inl (not_recognized s)
      | Some v \<Rightarrow> Inr (Some (with_tz f v)))"
  by (simp add: parse_datetime_steps_def naive_steps_first_success split: option.splits)

theorem parse_datetime_first_success_witness:
  "''10:30'' \<noteq> [] \<and>
   parse_datetime_steps sample_lib sample_formatter (Some ''10:30'') =
     ([TryDatetimeFormat, TryDateFormat, TryTimeFormat],
      Inr (Some (PyDatetime \<lparr>wall = 19783 * day_us + 37800000000, tzinfo = Some sample_tz\<rparr>)))"
  using parse_datetime_first_success [of "''10:30''" sample_lib sample_formatter]
  by (simp add: interpretations_def sample_defs with_tz_def datetime_combine_def
        datetime_date_def datetime_time_def day_us_def)

text \<open>
  C3, as amended. For every non-empty text, \<open>parse_datetime\<close> raises the \<open>ValueError\<close>
  carrying the text exactly when the three strict formats fail and the fuzzy parser
  found neither a date nor a time; otherwise it returns a value; and it raises no other
  error. (On empty text it returns absent before any interpretation is tried.)
\<close>

theorem parse_datetime_error_iff:
  "s \<noteq> [] \<Longrightarrow>
   (parse_datetime env f (Some s) = Inl (not_recognized s)) = nothing_recognized env f s \<and>
   (\<exists>v. parse_datetime env f (Some s) = Inr (Some v)) = (\<not> nothing_recognized env f s) \<and>
   (\<forall>e. parse_datetime env f (Some s) = Inl e \<longrightarrow> e = not_recognized s)"
  by (simp add: parse_datetime_nonempty parse_datetime_naive_cases)

theorem parse_datetime_error_iff_witness:
  "''gibberish'' \<noteq> [] \<and> nothing_recognized sample_lib sample_formatter ''gibberish'' \<and>
   parse_datetime sample_lib sample_formatter (Some ''gibberish'') = Inl (not_recognized ''gibberish'') \<and>
   \<not> nothing_recognized sample_lib sample_formatter ''tomorrow'' \<and>
   (\<exists>v. parse_datetime sample_lib sample_formatter (Some ''tomorrow'') = Inr (Some v))"
proof -
  have n1: "''gibberish'' \<noteq> []" and n2: "''tomorrow'' \<noteq> []"
    by simp_all
  have a: "nothing_recognized sample_lib sample_formatter ''gibberish''"
    by (simp add: nothing_recognized_def strict_formats_fail_def sample_defs)
  have b: "\<not> nothing_recognized sample_lib sample_formatter ''tomorrow''"
    by (simp add: nothing_recognized_def strict_formats_fail_def sample_defs)
  have c: "parse_datetime sample_lib sample_formatter (Some ''gibberish'')
             = Inl (not_recognized ''gibberish'')"
    using parse_datetime_error_iff [OF n1, of sample_lib sample_formatter] a by blast
  have d: "\<exists>v. parse_datetime sample_lib sample_formatter (Some ''tomorrow'') = Inr (Some v)"
    using parse_datetime_error_iff [OF n2, of sample_lib sample_formatter] b by blast
  show ?thesis
    using n1 a b c d by blast
qed

theorem parse_datetime_empty_counterexample:
  "\<not> ((parse_datetime sample_lib sample_formatter (Some []) = Inl (not_recognized []))
        = nothing_recognized sample_lib sample_formatter [])"
  by (simp add: parse_datetime_def parse_datetime_steps_def nothing_recognized_def
        strict_formats_fail_def sample_defs)

text \<open>
  C9. Whenever \<open>parse_datetime\<close> returns a value, a date-and-time result carries the
  formatter's configured timezone (put on the naive result in place of whatever it
  had), and a pure-date result is the naive result itself, with no timezone.
\<close>

theorem parse_datetime_timezone:
  "parse_datetime env f dt = Inr (Some v) \<Longrightarrow>
   pydate_tzinfo v = (case v of PyDatetime _ \<Rightarrow> Some (tz f) | PyDate _ \<Rightarrow> None) \<and>
   (\<exists>s rv. dt = Some s \<and> s \<noteq> [] \<and> parse_datetime_naive env f s = Inr rv \<and>
      v = (case rv of PyDatetime d \<Rightarrow> PyDatetime (d\<lparr>tzinfo := Some (tz f)\<rparr>) | PyDate d \<Rightarrow> PyDate d))"
  by (auto simp: parse_datetime_def parse_datetime_steps_def parse_datetime_naive_def
        with_tz_def replace_tzinfo_def pydate_tzinfo_def
      split: option.splits if_splits prod.splits sum.splits pydate.splits)

theorem parse_datetime_timezone_witness:
  "parse_datetime sample_lib sample_formatter (Some ''2024-03-01 10:30'') =
     Inr (Some (PyDatetime \<lparr>wall = 19783 * day_us + 37800000000, tzinfo = Some sample_tz\<rparr>)) \<and>
   pydate_tzinfo (PyDatetime \<lparr>wall = 19783 * day_us + 37800000000, tzinfo = Some sample_tz\<rparr>)
     = Some (tz sample_formatter) \<and>
   parse_datetime sample_lib sample_formatter (Some ''2024-03-01'') = Inr (Some (PyDate 19783)) \<and>
   pydate_tzinfo (PyDate 19783) = None"
proof -
  have a: "parse_datetime sample_lib sample_formatter (Some ''2024-03-01 10:30'') =
     Inr (Some (PyDatetime \<lparr>wall = 19783 * day_us + 37800000000, tzinfo = Some sample_tz\<rparr>))"
    by (simp add: parse_datetime_def parse_datetime_steps_def parse_datetime_naive_steps_def
          with_tz_def sample_defs)
  have b: "parse_datetime sample_lib sample_formatter (Some ''2024-03-01'') = Inr (Some (PyDate 19783))"
    by (simp add: parse_datetime_def parse_datetime_steps_def parse_datetime_naive_steps_def
          with_tz_def sample_defs datetime_date_def day_us_def)
  show ?thesis
    using a b parse_datetime_timezone [OF a] parse_datetime_timezone [OF b]
    by simp
qed


section \<open>Properties of the record renderer\<close>

lemma DefaultFormatter_init_now_aware:
  "tzinfo (now (DefaultFormatter_init env df tf sep tzo)) \<noteq> None"
  by (simp add: DefaultFormatter_init_def replace_tzinfo_def Let_def)

lemma click_style_plain: "click_style text None = text @ ansi_reset_all"
  by (simp add: click_style_def)

lemma click_style_red: "click_style text (Some Red) = esc # ''[31m'' @ text @ ansi_reset_all"
  by (simp add: click_style_def str_nat.simps digit_char_def)

lemma click_style_changes: "click_style text fg \<noteq> text"
proof
  assume "click_style text fg = text"
  then have "length (click_style text fg) = length text" by simp
  then show False by (simp add: click_style_def ansi_reset_all_def)
qed

lemma datetime_le_aware:
  "tzinfo a \<noteq> None \<Longrightarrow> tzinfo b \<noteq> None \<Longrightarrow> \<exists>r. datetime_le a b = Inr r"
  by (auto simp: datetime_le_def split: option.splits)

lemma datetime_le_refl: "datetime_le a a = Inr True"
  by (simp add: datetime_le_def split: option.splits)

lemma due_text_overdue:
  assumes "tzinfo (now f) \<noteq> None" and "due_in_model t"
  shows "due_text env f t =
     Inr (if overdue f t then click_style (format_datetime env f (due t)) (Some Red)
          else format_datetime env f (due t))"
proof (cases "due t")
  case None
  then show ?thesis by (simp add: due_text_def overdue_def Let_def)
next
  case (Some d)
  show ?thesis
  proof (cases d)
    case (PyDate x)
    with Some show ?thesis by (simp add: due_text_def overdue_def coerce_now_def Let_def)
  next
    case (PyDatetime x)
    with Some assms have "tzinfo x \<noteq> None" by (simp add: due_in_model_def)
    with assms obtain r where "datetime_le x (now f) = Inr r"
      using datetime_le_aware by blast
    with Some PyDatetime show ?thesis by (simp add: due_text_def overdue_def coerce_now_def Let_def)
  qed
qed

text \<open>
  The due column where a row is produced. For a record whose due value fits the data
  model, and a formatter whose "now" is aware (as the constructor makes it): the due
  text is the red styling of the formatted due value exactly when the record is
  overdue, and the plain formatted value otherwise; the two differ; a record due exactly
  "now" (or on the day of "now") is overdue exactly when it is not completed; and the
  fourth cell of the record's row, when there is a row, is that text, a blank and the
  recurrence marker.
\<close>

theorem overdue_highlighting:
  assumes "tzinfo (now f) \<noteq> None" and "due_in_model t"
  shows "due_text env f t =
           Inr (if overdue f t then click_style (format_datetime env f (due t)) (Some Red)
                else format_datetime env f (due t)) \<and>
         (due_text env f t = Inr (click_style (format_datetime env f (due t)) (Some Red)))
           = overdue f t \<and>
         (due t = Some (PyDatetime (now f)) \<or> due t = Some (PyDate (datetime_date (now f)))
            \<longrightarrow> overdue f t = (\<not> is_completed t)) \<and>
         (compact_row env f hide t = Inr row \<longrightarrow>
            row ! 3 = CellStr ((if overdue f t
                                then click_style (format_datetime env f (due t)) (Some Red)
                                else format_datetime env f (due t))
                               @ '' '' @ (if is_recurring t then recurring_glyph else [])))"
proof -
  note dt = due_text_overdue [OF assms, of env]
  have a: "(due_text env f t = Inr (click_style (format_datetime env f (due t)) (Some Red)))
           = overdue f t"
    using click_style_changes [of "format_datetime env f (due t)" "Some Red"]
    by (simp add: dt)
  have b: "due t = Some (PyDatetime (now f)) \<or> due t = Some (PyDate (datetime_date (now f)))
            \<longrightarrow> overdue f t = (\<not> is_completed t)"
    by (auto simp: overdue_def datetime_le_refl)
  have c: "compact_row env f hide t = Inr row \<longrightarrow>
            row ! 3 = CellStr ((if overdue f t
                                then click_style (format_datetime env f (due t)) (Some Red)
                                else format_datetime env f (due t))
                               @ '' '' @ (if is_recurring t then recurring_glyph else []))"
    by (auto simp: compact_row_def dt Let_def split: sum.splits)
  show ?thesis using dt a b c by blast
qed


lemma sample_rendering:
  "format_datetime sample_lib sample_formatter (Some (PyDatetime (now sample_formatter)))
     = ''%Y-%m-%d %H:%M:19783T32400''"
  by (simp add: format_datetime_def sample_formatter_fields sample_lib_def sample_strftime_def
        day_us_def str_int_def str_nat.simps digit_char_def)

theorem overdue_highlighting_witness:
  "tzinfo (now sample_formatter) \<noteq> None \<and> due_in_model sample_todo \<and>
   due sample_todo = Some (PyDatetime (now sample_formatter)) \<and>
   due_text sample_lib sample_formatter sample_todo
     = Inr (esc # ''[31m%Y-%m-%d %H:%M:19783T32400'' @ ansi_reset_all) \<and>
   due_text sample_lib sample_formatter (sample_todo\<lparr>is_completed := True\<rparr>)
     = Inr ''%Y-%m-%d %H:%M:19783T32400'' \<and>
   compact_row sample_lib sample_formatter True sample_todo
     = Inr [CellInt 1, CellStr ''[ ]'', CellStr ''!!!'',
            CellStr (esc # ''[31m%Y-%m-%d %H:%M:19783T32400'' @ ansi_reset_all @ '' ''),
            CellStr ''Buy milk ''] \<and>
   [CellInt 1, CellStr ''[ ]'', CellStr ''!!!'',
    CellStr (esc # ''[31m%Y-%m-%d %H:%M:19783T32400'' @ ansi_reset_all @ '' ''),
    CellStr ''Buy milk ''] ! 3
     = CellStr (click_style ''%Y-%m-%d %H:%M:19783T32400'' (Some Red) @ '' '')"
proof -
  let ?done = "sample_todo\<lparr>is_completed := True\<rparr>"
  let ?row = "[CellInt 1, CellStr ''[ ]'', CellStr ''!!!'',
               CellStr (esc # ''[31m%Y-%m-%d %H:%M:19783T32400'' @ ansi_reset_all @ '' ''),
               CellStr ''Buy milk '']"
  have aware: "tzinfo (now sample_formatter) \<noteq> None"
    by (simp add: sample_formatter_fields)
  have m1: "due_in_model sample_todo" and m2: "due_in_model ?done"
    by (simp_all add: due_in_model_def sample_todo_def sample_formatter_fields)
  have d1: "due sample_todo = Some (PyDatetime (now sample_formatter))"
    and d2: "due ?done = Some (PyDatetime (now sample_formatter))"
    by (simp_all add: sample_todo_def)
  have c1: "\<not> is_completed sample_todo" and c2: "is_completed ?done"
    by (simp_all add: sample_todo_def)
  note h1 = overdue_highlighting [OF aware m1, of sample_lib True ?row]
  note h2 = overdue_highlighting [OF aware m2, of sample_lib True ?row]
  have o1: "overdue sample_formatter sample_todo"
    using h1 d1 c1 by blast
  have o2: "\<not> overdue sample_formatter ?done"
    using h2 d2 c2 by blast
  have r1: "due_text sample_lib sample_formatter sample_todo
     = Inr (esc # ''[31m%Y-%m-%d %H:%M:19783T32400'' @ ansi_reset_all)"
    using conjunct1 [OF h1] o1 by (simp add: d1 sample_rendering click_style_red)
  have r2: "due_text sample_lib sample_formatter ?done = Inr ''%Y-%m-%d %H:%M:19783T32400''"
    using conjunct1 [OF h2] o2 by (simp add: d2 sample_rendering)
  have fields: "todo_id sample_todo = 1" "summary sample_todo = ''Buy milk''"
    "percent_complete sample_todo = None" "priority sample_todo = Some 4"
    "\<not> is_recurring sample_todo"
    by (simp_all add: sample_todo_def)
  have row: "compact_row sample_lib sample_formatter True sample_todo = Inr ?row"
    by (simp add: compact_row_def r1 fields c1 summary_text_def percent_text_def
          format_priority_compact_def)
  have cell: "?row ! 3 = CellStr (click_style ''%Y-%m-%d %H:%M:19783T32400'' (Some Red) @ '' '')"
    using h1 row o1 by (simp add: d1 sample_rendering fields)
  show ?thesis using aware m1 d1 r1 r2 row cell by blast
qed

text \<open>
  From the row to the table: \<open>compact_multiple\<close> gives \<open>tabulate\<close> one row per record, in
  order, so wherever it returns, the fourth cell of every row is the due text above;
  and with \<open>hide_list\<close> set it returns for every list of records of the data model.
\<close>

lemma compact_rows_rows:
  "compact_rows env f hide ts = Inr table \<Longrightarrow>
   length table = length ts \<and>
   (\<forall>i<length ts. compact_row env f hide (ts ! i) = Inr (table ! i))"
proof (induction ts arbitrary: table)
  case Nil
  then show ?case by simp
next
  case (Cons t ts)
  from Cons.prems obtain row rows where
    r: "compact_row env f hide t = Inr row" and
    rs: "compact_rows env f hide ts = Inr rows" and
    tb: "table = row # rows"
    by (auto split: sum.splits)
  from Cons.IH [OF rs] r tb show ?case
    by (auto simp: nth_Cons split: nat.splits)
qed

lemma compact_row_hidden_list:
  assumes "tzinfo (now f) \<noteq> None" and "due_in_model t"
  shows "\<exists>row. compact_row env f True t = Inr row"
  using due_text_overdue [OF assms, of env]
  by (simp add: compact_row_def summary_text_def Let_def)

lemma compact_rows_hidden_list:
  assumes "tzinfo (now f) \<noteq> None" and "\<forall>t\<in>set ts. due_in_model t"
  shows "\<exists>table. compact_rows env f True ts = Inr table"
  using assms(2)
proof (induction ts)
  case Nil
  then show ?case by simp
next
  case (Cons t ts)
  then obtain table where "compact_rows env f True ts = Inr table" by auto
  moreover obtain row where "compact_row env f True t = Inr row"
    using compact_row_hidden_list [OF assms(1), of t env] Cons.prems by auto
  ultimately show ?case by simp
qed

lemma compact_multiple_due_column:
  assumes "tzinfo (now f) \<noteq> None" and "\<forall>t\<in>set ts. due_in_model t"
    and "compact_multiple env f ts hide = Inr out"
  shows "\<exists>table. out = tabulate env table \<and> length table = length ts \<and>
           (\<forall>i<length ts.
              table ! i ! 3 =
                CellStr ((if overdue f (ts ! i)
                          then click_style (format_datetime env f (due (ts ! i))) (Some Red)
                          else format_datetime env f (due (ts ! i)))
                         @ '' '' @ (if is_recurring (ts ! i) then recurring_glyph else [])))"
proof -
  from assms(3) obtain table where
    tb: "compact_rows env f hide ts = Inr table" and out: "out = tabulate env table"
    by (auto simp: compact_multiple_def split: sum.splits)
  note rows = compact_rows_rows [OF tb]
  have "table ! i ! 3 =
          CellStr ((if overdue f (ts ! i)
                    then click_style (format_datetime env f (due (ts ! i))) (Some Red)
                    else format_datetime env f (due (ts ! i)))
                   @ '' '' @ (if is_recurring (ts ! i) then recurring_glyph else []))"
    if "i < length ts" for i
  proof -
    from that assms(2) have m: "due_in_model (ts ! i)" by simp
    from rows that have r: "compact_row env f hide (ts ! i) = Inr (table ! i)" by simp
    from overdue_highlighting [OF assms(1) m, of env hide "table ! i"] r
    show ?thesis by blast
  qed
  with rows out show ?thesis by blast
qed

lemma compact_multiple_hidden_list:
  assumes "tzinfo (now f) \<noteq> None" and "\<forall>t\<in>set ts. due_in_model t"
  shows "\<exists>out. compact_multiple env f ts True = Inr out"
  using compact_rows_hidden_list [OF assms, of env]
  by (auto simp: compact_multiple_def)

lemma sample_todo_zz_fields:
  "due sample_todo_zz = Some (PyDatetime (now sample_formatter))"
  "is_completed sample_todo_zz = False"
  "is_recurring sample_todo_zz = False"
  "todo_id sample_todo_zz = 1" "summary sample_todo_zz = ''Buy milk''"
  "percent_complete sample_todo_zz = None" "priority sample_todo_zz = Some 4"
  "todo_list sample_todo_zz = \<lparr>name = ''work'', colour = Some ''#zzzzzz''\<rparr>"
  by (simp_all add: sample_todo_zz_def sample_todo_def)

lemma sample_todo_zz_due_text:
  "due_text sample_lib sample_formatter sample_todo_zz
     = Inr (click_style ''%Y-%m-%d %H:%M:19783T32400'' (Some Red))"
  by (simp add: due_text_def sample_todo_zz_fields sample_rendering coerce_now_def
        datetime_le_refl Let_def)

text \<open>
  C6. The claim: in \<open>compact_multiple\<close> the due text of every record is rendered in red
  exactly when the record is overdue. Take an overdue, uncompleted record (due exactly
  "now") whose list has the colour \<open>#zzzzzz\<close>, and render it with the list name shown
  (\<open>hide_list=False\<close>, the default, which \<open>compact\<close> uses too): the due text has been
  computed, in red, when \<open>format_database\<close> lets the \<open>ValueError\<close> of \<open>rgb_to_ansi\<close>
  through, and no row is rendered at all.
\<close>

theorem compact_multiple_overdue_raises:
  "due_in_model sample_todo_zz \<and> overdue sample_formatter sample_todo_zz \<and>
   due_text sample_lib sample_formatter sample_todo_zz
     = Inr (click_style ''%Y-%m-%d %H:%M:19783T32400'' (Some Red)) \<and>
   compact_multiple sample_lib sample_formatter [sample_todo_zz] False
     = Inl (InvalidLiteral 16 ''zz'') \<and>
   compact sample_lib sample_formatter sample_todo_zz = Inl (InvalidLiteral 16 ''zz'')"
proof -
  have m: "due_in_model sample_todo_zz"
    by (simp add: due_in_model_def sample_todo_zz_fields sample_formatter_fields)
  have o: "overdue sample_formatter sample_todo_zz"
    by (simp add: overdue_def sample_todo_zz_fields datetime_le_refl)
  have db: "format_database \<lparr>name = ''work'', colour = Some ''#zzzzzz''\<rparr>
              = Inl (InvalidLiteral 16 ''zz'')"
    by (simp add: format_database_def rgb_to_ansi_def py_int_defs)
  have row: "compact_row sample_lib sample_formatter False sample_todo_zz
               = Inl (InvalidLiteral 16 ''zz'')"
    by (simp add: compact_row_def sample_todo_zz_due_text summary_text_def
          sample_todo_zz_fields db)
  have cm: "compact_multiple sample_lib sample_formatter [sample_todo_zz] False
              = Inl (InvalidLiteral 16 ''zz'')"
    by (simp add: compact_multiple_def row)
  show ?thesis
    using m o sample_todo_zz_due_text cm by (simp add: compact_def)
qed

lemma sample_todo_zz_hidden_list:
  "compact_rows sample_lib sample_formatter True [sample_todo_zz]
     = Inr [[CellInt 1, CellStr ''[ ]'', CellStr ''!!!'',
             CellStr (click_style ''%Y-%m-%d %H:%M:19783T32400'' (Some Red) @ '' ''),
             CellStr ''Buy milk '']]"
  by (simp add: compact_row_def sample_todo_zz_due_text summary_text_def percent_text_def
        format_priority_compact_def sample_todo_zz_fields)


text \<open>
  C7, as amended. For every list descriptor whose colour the Color Mapper accepts
  (it returns an escape sequence or nothing), \<open>format_database\<close> returns the colour
  prefix (empty when there is none), then the character \<open>@\<close>, then the default-styled
  name.
\<close>

theorem format_database_at_sign:
  "rgb_to_ansi (colour db) = Inr c \<Longrightarrow>
   format_database db =
     Inr ((case c of None \<Rightarrow> [] | Some a \<Rightarrow> a) @ ''@'' @ click_style (name db) None)"
  by (simp add: format_database_def)

theorem format_database_at_sign_witness:
  "rgb_to_ansi (colour sample_database) = Inr (Some (esc # ''[38;2;255;0;160m'')) \<and>
   format_database sample_database
     = Inr (esc # ''[38;2;255;0;160m'' @ ''@'' @ ''work'' @ ansi_reset_all)"
proof -
  have a: "rgb_to_ansi (colour sample_database) = Inr (Some (esc # ''[38;2;255;0;160m''))"
    by (simp add: sample_database_def rgb_to_ansi_sample)
  show ?thesis
    using a format_database_at_sign [OF a]
    by (simp add: click_style_plain sample_database_def)
qed

theorem format_database_counterexample:
  "format_database \<lparr>name = ''work'', colour = None\<rparr> \<noteq> Inr ([] @ click_style ''work'' None)"
  by (simp add: format_database_def rgb_to_ansi_def click_style_def)

section \<open>Properties of the structured formatter\<close>

text \<open>
  C4. The claim: formatting a date-and-time and parsing the result back gives the same
  instant. At the epoch itself \<open>format_datetime\<close> gives 0, which \<open>parse_datetime\<close>
  takes for an absent value.
\<close>

theorem Porcelain_epoch_lost:
  "Porcelain_format_datetime env (Some (PyDatetime \<lparr>wall = 0, tzinfo = Some pytz_UTC\<rparr>)) = Some 0 \<and>
   Porcelain_parse_datetime
     (Porcelain_format_datetime env (Some (PyDatetime \<lparr>wall = 0, tzinfo = Some pytz_UTC\<rparr>)))
     = None"
  by (simp add: Porcelain_format_datetime_def Porcelain_parse_datetime_def timestamp_us_def
        pytz_UTC_def py_trunc_div_def)

lemma py_trunc_div_mult: "0 < k \<Longrightarrow> py_trunc_div (n * k) k = n"
proof -
  assume k: "0 < k"
  have "- (n * k) = (- n) * k" by simp
  then have "(- (n * k)) div k = - n" using k by (metis nonzero_mult_div_cancel_right less_irrefl)
  then show ?thesis using k by (simp add: py_trunc_div_def)
qed

lemma Porcelain_timestamp_of_utc:
  "Porcelain_format_datetime env (Some (PyDatetime (fromtimestamp_utc n))) = Some n"
  by (simp add: Porcelain_format_datetime_def fromtimestamp_utc_def timestamp_us_def
        pytz_UTC_def py_trunc_div_mult)

text \<open>
  Away from zero the round trip holds on whole seconds: for a count \<open>n\<close> that
  \<open>fromtimestamp\<close> accepts (the years 1 to 9999 in UTC; outside them it raises, which
  the embedding leaves out), parsing \<open>n\<close> gives the UTC value whose timestamp is \<open>n\<close>.
\<close>

lemma Porcelain_roundtrip_nonzero:
  "n \<noteq> 0 \<Longrightarrow> - 62135596800 \<le> n \<Longrightarrow> n \<le> 253402300799 \<Longrightarrow>
   Porcelain_parse_datetime (Some n) = Some (PyDatetime (fromtimestamp_utc n)) \<and>
   Porcelain_format_datetime env (Some (PyDatetime (fromtimestamp_utc n))) = Some n \<and>
   tzinfo (fromtimestamp_utc n) = Some pytz_UTC"
  by (simp add: Porcelain_timestamp_of_utc Porcelain_parse_datetime_def)
    (simp add: fromtimestamp_utc_def)

end
